theory Spec2Isabelle
  imports Complex_Main "HOL-Library.Sublist"
begin

section \<open>Python values, exceptions and handler results\<close>

text \<open>
  The service of \<^verbatim>\<open>main.py\<close> is a set of independent request handlers. Each handler
  either returns a dictionary or raises an exception; a handler is modelled as a function
  into \<open>py_exception + payload\<close>, with \<open>Inl\<close> for the raised exception.

  A Python \<^verbatim>\<open>float\<close> is a \<open>pyfloat\<close>: a finite value, carried as the real number it
  denotes, one of the two infinities, or \<^verbatim>\<open>nan\<close>. The two zeros \<^verbatim>\<open>0.0\<close> and
  \<^verbatim>\<open>-0.0\<close>, which Python's \<^verbatim>\<open>==\<close> does not tell apart, are both \<open>Finite 0\<close>.
  Python's \<^verbatim>\<open>int\<close> is \<^typ>\<open>int\<close>, \<^verbatim>\<open>str\<close> is \<^typ>\<open>string\<close>, and a dictionary with
  string keys is an association list in insertion order.
\<close>

datatype pyfloat = Finite real | PosInf | NegInf | NaN

datatype py_value =
    PyNone
  | PyBool bool
  | PyInt int
  | PyFloat pyfloat
  | PyStr string
  | PyList "py_value list"
  | PyDict "(string \<times> py_value) list"

text \<open>
  The exception classes that the handlers raise or catch. \<open>Timeout\<close> stands for
  \<^verbatim>\<open>requests.exceptions.Timeout\<close> and its subclasses, \<open>RequestException\<close> for every other
  \<^verbatim>\<open>requests.exceptions.RequestException\<close>, \<open>AuthenticationError\<close> for
  \<^verbatim>\<open>openai.error.AuthenticationError\<close>, \<open>OpenAIError\<close> for every other
  \<^verbatim>\<open>openai.error.OpenAIError\<close>, and \<open>HTTPException status detail\<close> for FastAPI's
  \<^verbatim>\<open>HTTPException(status_code=status, detail=detail)\<close>. \<open>OtherException\<close> is any
  exception of another class. The string carried by a library exception is its argument.
\<close>

datatype py_exception =
    Timeout string
  | RequestException string
  | AuthenticationError string
  | OpenAIError string
  | HTTPException nat string
  | RuntimeError string
  | ZeroDivisionError
  | OverflowError
  | KeyError string
  | IndexError
  | TypeError
  | AttributeError
  | OtherException string

type_synonym payload = "(string \<times> py_value) list"

type_synonym 'a result = "py_exception + 'a"

definition payload_field :: "payload result \<Rightarrow> string \<Rightarrow> py_value option" where
  "payload_field r k = (case r of Inl e \<Rightarrow> None | Inr p \<Rightarrow> map_of p k)"

text \<open>Sequencing of steps that may raise: the first exception ends the computation.\<close>

definition then_do :: "'a result \<Rightarrow> ('a \<Rightarrow> 'b result) \<Rightarrow> 'b result" where
  "then_do r f = (case r of Inl e \<Rightarrow> Inl e | Inr x \<Rightarrow> f x)"

section \<open>Hydration and sleep score\<close>

text \<open>
  \<^verbatim>\<open>
  def check_hydration(water_ml: int) -> dict:
      if water_ml < 2000:
          return {"status": "Drink more water!", "advice": "Aim for at least 2 liters per day."}
      elif 2000 <= water_ml <= 3000:
          return {"status": "You're well hydrated!", "advice": "Maintain this level of hydration."}
      else:
          return {"status": "Too much water!", "advice": "Avoid overhydration."}
  \<close>
\<close>

definition check_hydration :: "int \<Rightarrow> payload result" where
  "check_hydration water_ml =
     (if water_ml < 2000 then
        Inr [(''status'', PyStr ''Drink more water!''),
             (''advice'', PyStr ''Aim for at least 2 liters per day.'')]
      else if 2000 \<le> water_ml \<and> water_ml \<le> 3000 then
        Inr [(''status'', PyStr ''You're well hydrated!''),
             (''advice'', PyStr ''Maintain this level of hydration.'')]
      else
        Inr [(''status'', PyStr ''Too much water!''),
             (''advice'', PyStr ''Avoid overhydration.'')])"

text \<open>
  \<^verbatim>\<open>
  def sleep_score(hours: float) -> dict:
      if hours < 6:
          return {"score": 50, "status": "Too little sleep"}
      elif 6 <= hours <= 8:
          return {"score": 90, "status": "Healthy sleep"}
      else:
          return {"score": 70, "status": "Too much sleep"}
  \<close>
  The argument is the value of a finite float; its comparisons with 6 and 8 are exact.
\<close>

definition sleep_score :: "real \<Rightarrow> payload result" where
  "sleep_score hours =
     (if hours < 6 then
        Inr [(''score'', PyInt 50), (''status'', PyStr ''Too little sleep'')]
      else if 6 \<le> hours \<and> hours \<le> 8 then
        Inr [(''score'', PyInt 90), (''status'', PyStr ''Healthy sleep'')]
      else
        Inr [(''score'', PyInt 70), (''status'', PyStr ''Too much sleep'')])"

section \<open>Float comparisons and float arithmetic\<close>

text \<open>
  Comparisons of floats are exact: \<^verbatim>\<open>a <= b\<close> and \<^verbatim>\<open>a < b\<close> compare the values,
  an infinity lies beyond every finite value, and every comparison with \<^verbatim>\<open>nan\<close> is
  false. An \<^verbatim>\<open>int\<close> literal compared with a float is compared by value, so
  \<^verbatim>\<open>height <= 0\<close> is \<open>float_le height (Finite 0)\<close>.
\<close>

fun float_le :: "pyfloat \<Rightarrow> pyfloat \<Rightarrow> bool" where
  "float_le NaN b = False"
| "float_le a NaN = False"
| "float_le NegInf b = True"
| "float_le a PosInf = True"
| "float_le (Finite x) (Finite y) = (x \<le> y)"
| "float_le a b = False"

fun float_lt :: "pyfloat \<Rightarrow> pyfloat \<Rightarrow> bool" where
  "float_lt NaN b = False"
| "float_lt a NaN = False"
| "float_lt (Finite x) (Finite y) = (x < y)"
| "float_lt NegInf b = (b \<noteq> NegInf)"
| "float_lt a PosInf = (a \<noteq> PosInf)"
| "float_lt a b = False"

definition float_is_zero :: "pyfloat \<Rightarrow> bool" where
  "float_is_zero a = (a = Finite 0)"

text \<open>
  The arithmetic of floats belongs to the interpreter and the C library, not to the
  repository; the handlers take it as a parameter. \<open>f_truediv ops a b\<close> is the quotient
  \<^verbatim>\<open>a / b\<close> for a divisor that is not zero, \<open>f_mul ops a b\<close> the product \<^verbatim>\<open>a * b\<close>
  (which never raises: a product out of range is an infinity), \<open>f_pow ops a n\<close> the
  power \<^verbatim>\<open>a ** n\<close> for a literal exponent \<open>n\<close>, \<open>None\<close> when Python raises
  \<^verbatim>\<open>OverflowError\<close>, and \<open>f_round ops a n\<close> is \<^verbatim>\<open>round(a, n)\<close>.
\<close>

record float_ops =
  f_truediv :: "pyfloat \<Rightarrow> pyfloat \<Rightarrow> pyfloat"
  f_mul :: "pyfloat \<Rightarrow> pyfloat \<Rightarrow> pyfloat"
  f_pow :: "pyfloat \<Rightarrow> nat \<Rightarrow> pyfloat option"
  f_round :: "pyfloat \<Rightarrow> nat \<Rightarrow> pyfloat"

text \<open>
  Python's \<^verbatim>\<open>a / b\<close> on floats raises \<^verbatim>\<open>ZeroDivisionError\<close> when \<open>b\<close> is zero, and
  \<^verbatim>\<open>a ** n\<close> raises \<^verbatim>\<open>OverflowError\<close> when the power of a finite float is out of range.
\<close>

definition py_truediv :: "float_ops \<Rightarrow> pyfloat \<Rightarrow> pyfloat \<Rightarrow> pyfloat result" where
  "py_truediv ops a b =
     (if float_is_zero b then Inl ZeroDivisionError else Inr (f_truediv ops a b))"

definition py_pow :: "float_ops \<Rightarrow> pyfloat \<Rightarrow> nat \<Rightarrow> pyfloat result" where
  "py_pow ops a n = (case f_pow ops a n of None \<Rightarrow> Inl OverflowError | Some r \<Rightarrow> Inr r)"

section \<open>Body-mass index\<close>

text \<open>
  \<^verbatim>\<open>
  def calculate_bmi(weight: float, height: float) -> dict:
      if height <= 0 or weight <= 0:
          raise HTTPException(status_code=400, detail="Weight and height must be greater than zero.")
      if height > 10:
          height = height / 100
      bmi = weight / (height ** 2)
      return {"bmi": round(bmi, 2)}
  \<close>
\<close>

definition calculate_bmi :: "float_ops \<Rightarrow> pyfloat \<Rightarrow> pyfloat \<Rightarrow> payload result" where
  "calculate_bmi ops weight height =
     (if float_le height (Finite 0) \<or> float_le weight (Finite 0) then
        Inl (HTTPException 400 ''Weight and height must be greater than zero.'')
      else
        then_do (if float_lt (Finite 10) height then py_truediv ops height (Finite 100)
                 else Inr height) (\<lambda>height.
        then_do (py_pow ops height 2) (\<lambda>squared.
        then_do (py_truediv ops weight squared) (\<lambda>bmi.
        Inr [(''bmi'', PyFloat (f_round ops bmi 2))]))))"

section \<open>Calories\<close>

text \<open>
  \<^verbatim>\<open>
  def calculate_calories(weight: float, duration: float, activity_level: str) -> dict:
      if duration <= 0 or weight <= 0:
          raise HTTPException(status_code=400, detail="Weight and duration must be greater than zero.")
      met_values = {"light": 3.5, "moderate": 5.0, "vigorous": 8.0}
      met = met_values.get(activity_level)
      if not met:
          raise HTTPException(status_code=400, detail="Invalid activity level. Choose from light, moderate, or vigorous.")
      calories_burned = (met * weight * duration) / 60
      return {"calories_burned": round(calories_burned, 2)}
  \<close>
  \<^verbatim>\<open>met_values.get\<close> returns \<^verbatim>\<open>None\<close> for an unknown key, and \<^verbatim>\<open>not met\<close> holds for
  \<^verbatim>\<open>None\<close> and for the float zero.
\<close>

definition met_values :: "(string \<times> pyfloat) list" where
  "met_values =
     [(''light'', Finite (35 / 10)), (''moderate'', Finite 5), (''vigorous'', Finite 8)]"

definition calculate_calories ::
  "float_ops \<Rightarrow> pyfloat \<Rightarrow> pyfloat \<Rightarrow> string \<Rightarrow> payload result" where
  "calculate_calories ops weight duration activity_level =
     (if float_le duration (Finite 0) \<or> float_le weight (Finite 0) then
        Inl (HTTPException 400 ''Weight and duration must be greater than zero.'')
      else
        case map_of met_values activity_level of
          None \<Rightarrow>
            Inl (HTTPException 400
                   ''Invalid activity level. Choose from light, moderate, or vigorous.'')
        | Some met \<Rightarrow>
            if float_is_zero met then
              Inl (HTTPException 400
                     ''Invalid activity level. Choose from light, moderate, or vigorous.'')
            else
              then_do (py_truediv ops (f_mul ops (f_mul ops met weight) duration) (Finite 60))
                (\<lambda>calories_burned.
              Inr [(''calories_burned'', PyFloat (f_round ops calories_burned 2))]))"

section \<open>Binary64 arithmetic\<close>

text \<open>
  CPython's floats are IEEE 754 binary64 numbers, and its arithmetic rounds the exact
  result to the nearest of them, a tie going to the even significand. \<open>binade x\<close> is
  the exponent of the power of two at or below \<open>\<bar>x\<bar>\<close>, not below that of the smallest
  normal number; the floats of that binade are the multiples of \<open>pow2 (binade x - 52)\<close>.
  A result that rounds to \<open>2 ^ 1024\<close> or beyond is out of range.
\<close>

definition round_half_even :: "real \<Rightarrow> int" where
  "round_half_even x =
     (let f = \<lfloor>x\<rfloor>; d = x - of_int f in
      if d < 1 / 2 then f
      else if 1 / 2 < d then f + 1
      else if even f then f else f + 1)"

definition pow2 :: "int \<Rightarrow> real" where
  "pow2 e = (if 0 \<le> e then 2 ^ nat e else 1 / 2 ^ nat (- e))"

definition binade :: "real \<Rightarrow> int" where
  "binade x = max \<lfloor>log 2 \<bar>x\<bar>\<rfloor> (- 1022)"

definition round_at :: "int \<Rightarrow> real \<Rightarrow> pyfloat" where
  "round_at e x =
     (let q = pow2 (e - 52); r = of_int (round_half_even (x / q)) * q in
      if 2 ^ 1024 \<le> \<bar>r\<bar> then (if 0 < x then PosInf else NegInf) else Finite r)"

definition fl :: "real \<Rightarrow> pyfloat" where
  "fl x = (if x = 0 then Finite 0 else round_at (binade x) x)"

text \<open>
  The four operations on binary64. The product and the quotient follow IEEE 754; the
  quotient is only asked for with a divisor that is not zero. The power is the correctly
  rounded one, with CPython's \<^verbatim>\<open>float_pow\<close> around it: \<^verbatim>\<open>a ** 0\<close> is one, \<^verbatim>\<open>nan\<close> and
  the infinities do not raise, a finite power out of range raises, and one that underflows
  is zero. \<^verbatim>\<open>round(a, n)\<close> leaves \<^verbatim>\<open>nan\<close> and the infinities alone and otherwise rounds
  the exact value of \<open>a\<close> to \<open>n\<close> decimals, a tie going to the even digit, and returns
  the float nearest to that decimal.
\<close>

fun b64_mul :: "pyfloat \<Rightarrow> pyfloat \<Rightarrow> pyfloat" where
  "b64_mul (Finite x) (Finite y) = fl (x * y)"
| "b64_mul NaN b = NaN"
| "b64_mul a NaN = NaN"
| "b64_mul (Finite x) b =
     (if x = 0 then NaN else if (0 < x) = (b = PosInf) then PosInf else NegInf)"
| "b64_mul a (Finite y) =
     (if y = 0 then NaN else if (0 < y) = (a = PosInf) then PosInf else NegInf)"
| "b64_mul a b = (if a = b then PosInf else NegInf)"

fun b64_truediv :: "pyfloat \<Rightarrow> pyfloat \<Rightarrow> pyfloat" where
  "b64_truediv (Finite x) (Finite y) = fl (x / y)"
| "b64_truediv NaN b = NaN"
| "b64_truediv a NaN = NaN"
| "b64_truediv (Finite x) b = Finite 0"
| "b64_truediv a (Finite y) = (if (0 < y) = (a = PosInf) then PosInf else NegInf)"
| "b64_truediv a b = NaN"

fun b64_pow :: "pyfloat \<Rightarrow> nat \<Rightarrow> pyfloat option" where
  "b64_pow a 0 = Some (Finite 1)"
| "b64_pow (Finite x) n = (case fl (x ^ n) of Finite r \<Rightarrow> Some (Finite r) | _ \<Rightarrow> None)"
| "b64_pow NaN n = Some NaN"
| "b64_pow PosInf n = Some PosInf"
| "b64_pow NegInf n = Some (if even n then PosInf else NegInf)"

fun b64_round :: "pyfloat \<Rightarrow> nat \<Rightarrow> pyfloat" where
  "b64_round (Finite x) ndigits =
     fl (of_int (round_half_even (x * 10 ^ ndigits)) / 10 ^ ndigits)"
| "b64_round a ndigits = a"

definition binary64 :: float_ops where
  "binary64 = \<lparr>f_truediv = b64_truediv, f_mul = b64_mul, f_pow = b64_pow,
               f_round = b64_round\<rparr>"

section \<open>Environment and start-up\<close>

text \<open>
  The process environment, after \<^verbatim>\<open>load_dotenv()\<close>, is a map from variable names to
  values; \<^verbatim>\<open>os.getenv\<close> is the lookup, and \<^verbatim>\<open>not os.getenv(var)\<close> holds for an unset
  variable and for one set to the empty string.
  \<^verbatim>\<open>
  required_env_vars = ["OPENWEATHER_KEY", "OPENAI_API_KEY"]
  missing_vars = [var for var in required_env_vars if not os.getenv(var)]
  if missing_vars:
      raise RuntimeError(f"Missing required environment variables: {', '.join(missing_vars)}")
  \<close>
  Everything after these lines of the module (the application object and its routes) is
  only reached when no error is raised here: \<open>module_init\<close> returns \<open>Inr ()\<close> exactly when
  the module goes on to define the application.
\<close>

type_synonym environ = "string \<rightharpoonup> string"

definition getenv :: "environ \<Rightarrow> string \<Rightarrow> string option" where
  "getenv env var = env var"

definition not_str :: "string option \<Rightarrow> bool" where
  "not_str v = (case v of None \<Rightarrow> True | Some s \<Rightarrow> s = [])"

definition required_env_vars :: "string list" where
  "required_env_vars = [''OPENWEATHER_KEY'', ''OPENAI_API_KEY'']"

definition missing_vars :: "environ \<Rightarrow> string list" where
  "missing_vars env = [var \<leftarrow> required_env_vars. not_str (getenv env var)]"

fun join :: "string \<Rightarrow> string list \<Rightarrow> string" where
  "join sep [] = []"
| "join sep [x] = x"
| "join sep (x # y # ys) = x @ sep @ join sep (y # ys)"

definition module_init :: "environ \<Rightarrow> unit result" where
  "module_init env =
     (if missing_vars env \<noteq> [] then
        Inl (RuntimeError (''Missing required environment variables: ''
                             @ join '', '' (missing_vars env)))
      else Inr ())"

section \<open>Operations on Python values\<close>

text \<open>
  \<^verbatim>\<open>k in v\<close> for a string \<open>k\<close>: key membership in a dictionary, element membership in
  a list, substring test in a string, and \<^verbatim>\<open>TypeError\<close> for a value that is no container.
\<close>

fun py_in :: "string \<Rightarrow> py_value \<Rightarrow> bool result" where
  "py_in k (PyDict kvs) = Inr (k \<in> set (map fst kvs))"
| "py_in k (PyList xs) = Inr (PyStr k \<in> set xs)"
| "py_in k (PyStr s) = Inr (sublist k s)"
| "py_in k v = Inl TypeError"

text \<open>
  \<^verbatim>\<open>v[k]\<close> for a string \<open>k\<close>: dictionary lookup, \<^verbatim>\<open>KeyError\<close> for a missing key,
  \<^verbatim>\<open>TypeError\<close> for every value that is no dictionary.
\<close>

fun py_getitem_str :: "py_value \<Rightarrow> string \<Rightarrow> py_value result" where
  "py_getitem_str (PyDict kvs) k =
     (case map_of kvs k of None \<Rightarrow> Inl (KeyError k) | Some v \<Rightarrow> Inr v)"
| "py_getitem_str v k = Inl TypeError"

text \<open>
  \<^verbatim>\<open>v[0]\<close>: the first element of a list, the first character of a string,
  \<^verbatim>\<open>IndexError\<close> when either is empty, \<^verbatim>\<open>KeyError\<close> on a dictionary (whose keys are
  strings), \<^verbatim>\<open>TypeError\<close> otherwise.
\<close>

fun py_getitem_0 :: "py_value \<Rightarrow> py_value result" where
  "py_getitem_0 (PyList []) = Inl IndexError"
| "py_getitem_0 (PyList (x # xs)) = Inr x"
| "py_getitem_0 (PyStr []) = Inl IndexError"
| "py_getitem_0 (PyStr (c # cs)) = Inr (PyStr [c])"
| "py_getitem_0 (PyDict kvs) = Inl (KeyError ''0'')"
| "py_getitem_0 v = Inl TypeError"

text \<open>
  \<^verbatim>\<open>v.get(k)\<close>: the dictionary method, \<^verbatim>\<open>None\<close> for a missing key; no other value of
  the model has the attribute.
\<close>

fun py_get :: "py_value \<Rightarrow> string \<Rightarrow> py_value result" where
  "py_get (PyDict kvs) k = Inr (case map_of kvs k of None \<Rightarrow> PyNone | Some v \<Rightarrow> v)"
| "py_get v k = Inl AttributeError"

text \<open>\<^verbatim>\<open>not v\<close>: the negated truth value.\<close>

fun py_not :: "py_value \<Rightarrow> bool" where
  "py_not PyNone = True"
| "py_not (PyBool b) = (\<not> b)"
| "py_not (PyInt i) = (i = 0)"
| "py_not (PyFloat x) = float_is_zero x"
| "py_not (PyStr s) = (s = [])"
| "py_not (PyList xs) = (xs = [])"
| "py_not (PyDict kvs) = (kvs = [])"

section \<open>Weather proxy\<close>

text \<open>
  The outbound call is a parameter: \<open>requests_get url timeout\<close> is what
  \<^verbatim>\<open>requests.get(url, timeout=timeout)\<close> does, an exception or a response. A response
  answers \<^verbatim>\<open>raise_for_status()\<close> with an exception or nothing, and \<^verbatim>\<open>json()\<close> with an
  exception or the decoded body. \<open>str_exc\<close> is Python's \<^verbatim>\<open>str\<close> on an exception
  object, defined by the libraries that own the exception classes.
  \<^verbatim>\<open>
  def get_weather(city: str) -> dict:
      API_KEY = os.getenv("OPENWEATHER_KEY")
      if not API_KEY:
          raise HTTPException(status_code=500, detail="Missing OpenWeather API key.")
      url = f"https://api.openweathermap.org/data/2.5/weather?q={city}&appid={API_KEY}&units=metric"
      try:
          response = requests.get(url, timeout=10)
          response.raise_for_status()
          data = response.json()
          if "main" not in data or "weather" not in data:
              raise HTTPException(status_code=500, detail="Unexpected response format from OpenWeather API.")
          return {"city": city, "temperature": data["main"]["temp"],
                  "description": data["weather"][0]["description"]}
      except requests.exceptions.Timeout:
          raise HTTPException(status_code=504, detail="OpenWeather API request timed out.")
      except requests.exceptions.RequestException as e:
          raise HTTPException(status_code=502, detail=f"Bad Gateway: {str(e)}")
      except Exception as e:
          raise HTTPException(status_code=500, detail=f"Internal Server Error: {str(e)}")
  \<close>
\<close>

record response =
  raise_for_status :: "py_exception option"
  json :: "py_value result"

definition weather_url :: "string \<Rightarrow> string \<Rightarrow> string" where
  "weather_url city API_KEY =
     ''https://api.openweathermap.org/data/2.5/weather?q='' @ city
       @ ''&appid='' @ API_KEY @ ''&units=metric''"

definition weather_unexpected :: py_exception where
  "weather_unexpected = HTTPException 500 ''Unexpected response format from OpenWeather API.''"

text \<open>
  The first three statements of the \<^verbatim>\<open>try\<close> block: the single outbound call, its
  status check and the decoding of its body.
\<close>

definition upstream_call ::
  "(string \<Rightarrow> nat \<Rightarrow> response result) \<Rightarrow> string \<Rightarrow> py_value result" where
  "upstream_call requests_get url =
     then_do (requests_get url 10) (\<lambda>response.
     case raise_for_status response of
       Some e \<Rightarrow> Inl e
     | None \<Rightarrow> json response)"

text \<open>The body of the \<^verbatim>\<open>try\<close> block.\<close>

definition get_weather_try ::
  "(string \<Rightarrow> nat \<Rightarrow> response result) \<Rightarrow> string \<Rightarrow> string \<Rightarrow> payload result" where
  "get_weather_try requests_get url city =
     then_do (upstream_call requests_get url) (\<lambda>data.
     then_do (py_in ''main'' data) (\<lambda>has_main.
     if \<not> has_main then Inl weather_unexpected
     else
     then_do (py_in ''weather'' data) (\<lambda>has_weather.
     if \<not> has_weather then Inl weather_unexpected
     else
     then_do (py_getitem_str data ''main'') (\<lambda>main.
     then_do (py_getitem_str main ''temp'') (\<lambda>temp.
     then_do (py_getitem_str data ''weather'') (\<lambda>weather.
     then_do (py_getitem_0 weather) (\<lambda>weather0.
     then_do (py_getitem_str weather0 ''description'') (\<lambda>description.
     Inr [(''city'', PyStr city), (''temperature'', temp),
          (''description'', description)]))))))))"

text \<open>The \<^verbatim>\<open>except\<close> clauses, in the order of the source.\<close>

fun get_weather_except :: "(py_exception \<Rightarrow> string) \<Rightarrow> py_exception \<Rightarrow> py_exception" where
  "get_weather_except str_exc (Timeout a) =
     HTTPException 504 ''OpenWeather API request timed out.''"
| "get_weather_except str_exc (RequestException a) =
     HTTPException 502 (''Bad Gateway: '' @ str_exc (RequestException a))"
| "get_weather_except str_exc e =
     HTTPException 500 (''Internal Server Error: '' @ str_exc e)"

definition get_weather ::
  "(py_exception \<Rightarrow> string) \<Rightarrow> environ \<Rightarrow> (string \<Rightarrow> nat \<Rightarrow> response result)
     \<Rightarrow> string \<Rightarrow> payload result" where
  "get_weather str_exc env requests_get city =
     (case getenv env ''OPENWEATHER_KEY'' of
        None \<Rightarrow> Inl (HTTPException 500 ''Missing OpenWeather API key.'')
      | Some API_KEY \<Rightarrow>
          if API_KEY = [] then Inl (HTTPException 500 ''Missing OpenWeather API key.'')
          else
            (case get_weather_try requests_get (weather_url city API_KEY) city of
               Inl e \<Rightarrow> Inl (get_weather_except str_exc e)
             | Inr p \<Rightarrow> Inr p))"

section \<open>Text-completion proxy\<close>

text \<open>
  \<open>chat_create model messages\<close> is what
  \<^verbatim>\<open>openai.ChatCompletion.create(model=model, messages=messages)\<close> does.
  \<^verbatim>\<open>
  def ask_openai(request: str) -> dict:
      try:
          response = openai.ChatCompletion.create(
              model="gpt-3.5-turbo",
              messages=[{"role": "user", "content": request}])
          choices = response.get("choices")
          if not choices or not choices[0].get("message"):
              raise HTTPException(status_code=500, detail="Unexpected response format from OpenAI API.")
          return {"response": choices[0]["message"]["content"]}
      except AuthenticationError:
          raise HTTPException(status_code=401, detail="Invalid OpenAI API key.")
      except OpenAIError as e:
          raise HTTPException(status_code=502, detail=f"Bad Gateway: {str(e)}")
      except Exception as e:
          raise HTTPException(status_code=500, detail=f"Internal Server Error: {str(e)}")
  \<close>
\<close>

definition openai_unexpected :: py_exception where
  "openai_unexpected = HTTPException 500 ''Unexpected response format from OpenAI API.''"

definition ask_openai_try ::
  "(string \<Rightarrow> py_value \<Rightarrow> py_value result) \<Rightarrow> string \<Rightarrow> payload result" where
  "ask_openai_try chat_create request =
     then_do (chat_create ''gpt-3.5-turbo''
                (PyList [PyDict [(''role'', PyStr ''user''), (''content'', PyStr request)]]))
       (\<lambda>response.
     then_do (py_get response ''choices'') (\<lambda>choices.
     if py_not choices then Inl openai_unexpected
     else
     then_do (py_getitem_0 choices) (\<lambda>choice.
     then_do (py_get choice ''message'') (\<lambda>message.
     if py_not message then Inl openai_unexpected
     else
     then_do (py_getitem_0 choices) (\<lambda>choice.
     then_do (py_getitem_str choice ''message'') (\<lambda>message.
     then_do (py_getitem_str message ''content'') (\<lambda>content.
     Inr [(''response'', content)])))))))"

fun ask_openai_except :: "(py_exception \<Rightarrow> string) \<Rightarrow> py_exception \<Rightarrow> py_exception" where
  "ask_openai_except str_exc (AuthenticationError a) =
     HTTPException 401 ''Invalid OpenAI API key.''"
| "ask_openai_except str_exc (OpenAIError a) =
     HTTPException 502 (''Bad Gateway: '' @ str_exc (OpenAIError a))"
| "ask_openai_except str_exc e =
     HTTPException 500 (''Internal Server Error: '' @ str_exc e)"

definition ask_openai ::
  "(py_exception \<Rightarrow> string) \<Rightarrow> (string \<Rightarrow> py_value \<Rightarrow> py_value result)
     \<Rightarrow> string \<Rightarrow> payload result" where
  "ask_openai str_exc chat_create request =
     (case ask_openai_try chat_create request of
        Inl e \<Rightarrow> Inl (ask_openai_except str_exc e)
      | Inr p \<Rightarrow> Inr p)"


section \<open>Auxiliary facts\<close>

lemma then_do_Inl: "then_do (Inl e) f = Inl e"
  by (simp add: then_do_def)

lemma then_do_Inr: "then_do (Inr x) f = f x"
  by (simp add: then_do_def)

lemma map_of_in_keys: "map_of kvs k = Some v \<Longrightarrow> k \<in> fst ` set kvs"
  by (metis map_of_eq_None_iff option.distinct(1))

lemma get_weather_except_detail:
  "get_weather_except str_exc e \<noteq>
     HTTPException status ''Unexpected response format from OpenWeather API.''"
  by (cases e) simp_all

lemma ask_openai_except_detail:
  "ask_openai_except str_exc e \<noteq>
     HTTPException status ''Unexpected response format from OpenAI API.''"
  by (cases e) simp_all

lemma float_lt_not_le: "float_lt (Finite c) a \<Longrightarrow> \<not> float_le a (Finite c)"
  by (cases a) auto

lemma float_le_not_lt: "float_le a (Finite c) \<Longrightarrow> \<not> float_lt (Finite c) a"
  by (cases a) auto

lemma float_lt_10_not_le_0: "float_lt (Finite 10) a \<Longrightarrow> \<not> float_le a (Finite 0)"
  by (cases a) auto

text \<open>
  Rounding to binary64 at a known binade: the exponent is fixed by two powers of two that
  enclose the number, and below the smallest normal number it is that of the subnormals.
\<close>

lemma pow2_powr: "pow2 e = 2 powr (of_int e)"
  by (simp add: pow2_def powr_real_of_int inverse_eq_divide)

lemma pow2_pos: "0 < pow2 e"
  by (simp add: pow2_def)

lemma binade_normal:
  assumes "pow2 e \<le> \<bar>x\<bar>" and "\<bar>x\<bar> < pow2 (e + 1)" and "- 1022 \<le> e"
  shows "binade x = e"
proof -
  have pos: "0 < \<bar>x\<bar>"
    using assms(1) pow2_pos [of e] by linarith
  have "\<lfloor>log 2 \<bar>x\<bar>\<rfloor> = e"
    using assms(1,2) pos by (simp add: floor_log_eq_powr_iff pow2_powr)
  with assms(3) show ?thesis by (simp add: binade_def)
qed

lemma binade_subnormal:
  assumes "x \<noteq> 0" and "\<bar>x\<bar> < pow2 (- 1022)"
  shows "binade x = - 1022"
proof -
  have pos: "0 < \<bar>x\<bar>" using assms(1) by simp
  have "log 2 \<bar>x\<bar> < - 1022"
    using assms(2) pos by (simp add: pow2_powr log_less_iff)
  then have "\<lfloor>log 2 \<bar>x\<bar>\<rfloor> \<le> - 1022" by linarith
  then show ?thesis by (simp add: binade_def)
qed

lemma fl_normal:
  assumes "pow2 e \<le> \<bar>x\<bar>" and "\<bar>x\<bar> < pow2 (e + 1)" and "- 1022 \<le> e"
  shows "fl x = round_at e x"
proof -
  have "x \<noteq> 0"
    using assms(1) pow2_pos [of e] by auto
  with binade_normal [OF assms] show ?thesis
    by (simp add: fl_def)
qed

lemma fl_subnormal:
  "\<bar>x\<bar> < pow2 (- 1022) \<Longrightarrow> fl x = (if x = 0 then Finite 0 else round_at (- 1022) x)"
  using binade_subnormal [of x] by (simp add: fl_def)

lemmas b64_eval = pow2_def round_at_def round_half_even_def

text \<open>
  The roundings met on the way from \<^verbatim>\<open>calculate_bmi(56, 160)\<close> to 21.87, from
  \<^verbatim>\<open>calculate_bmi(70, 1.75)\<close> to 22.86 and from \<^verbatim>\<open>calculate_calories(31, 9, "light")\<close>
  to 16.27, and those at the two ends of the range: the square of \<open>1 / 2 ^ 600\<close> is
  zero, and the square of the float nearest to \<open>2 ^ 600 / 100\<close> and the product of
  \<open>2 ^ 1003\<close> and \<open>2 ^ 1000\<close> are out of range.
\<close>

lemma fl_8_5: "fl (8 / 5) = Finite (7205759403792794 / 2 ^ 52)"
  by (simp add: fl_normal [of 0] b64_eval)

lemma fl_sq_8_5: "fl ((7205759403792794 / 2 ^ 52) ^ 2) = Finite (5764607523034236 / 2 ^ 51)"
  by (simp add: fl_normal [of 1] b64_eval power2_eq_square)

lemma fl_56_sq: "fl (56 / (5764607523034236 / 2 ^ 51)) = Finite (6157265115545599 / 2 ^ 48)"
  by (simp add: fl_normal [of 4] b64_eval)

lemma fl_49_16: "fl ((7 / 4) ^ 2) = Finite (49 / 16)"
  by (simp add: fl_normal [of 1] b64_eval power2_eq_square)

lemma fl_160_7: "fl (70 / (49 / 16)) = Finite (6433713753386423 / 2 ^ 48)"
  by (simp add: fl_normal [of 4] b64_eval)

lemma fl_tiny: "fl ((1 / 2 ^ 600) ^ 2) = Finite 0"
  by (simp add: fl_subnormal b64_eval power2_eq_square)

lemma fl_huge_100: "fl (2 ^ 600 / 100) = Finite (5764607523034235 * 2 ^ 541)"
  by (simp add: fl_normal [of 593] b64_eval)

lemma fl_huge_sq: "fl ((5764607523034235 * 2 ^ 541) ^ 2) = PosInf"
  by (simp add: fl_normal [of 1186] b64_eval power2_eq_square)

lemma fl_217_2: "fl (35 / 10 * 31) = Finite (217 / 2)"
  by (simp add: fl_normal [of 6] b64_eval)

lemma fl_1953_2: "fl (217 / 2 * 9) = Finite (1953 / 2)"
  by (simp add: fl_normal [of 9] b64_eval)

lemma fl_651_40: "fl (1953 / 2 / 60) = Finite (4581005245965926 / 2 ^ 48)"
  by (simp add: fl_normal [of 4] b64_eval)

lemma fl_2_1003: "fl (8 * 2 ^ 1000) = Finite (2 ^ 1003)"
  by (simp add: fl_normal [of 1003] b64_eval)

lemma fl_2_2003: "fl (2 ^ 1003 * 2 ^ 1000) = PosInf"
  by (simp add: fl_normal [of 2003] b64_eval)

section \<open>Properties of the computation handlers\<close>

text \<open>
  Claim C1, as the code has it. For every weight above zero and every height above 10
  for which the square of \<^verbatim>\<open>height / 100\<close> is computed without \<^verbatim>\<open>OverflowError\<close> and
  is not zero, the \<^verbatim>\<open>/bmi\<close> handler returns \<^verbatim>\<open>round(weight / (height / 100) ** 2, 2)\<close>
  (a height in centimetres, converted to metres); for every weight above zero and every
  height in \<open>(0, 10]\<close> for which the square of the height is computed without
  \<^verbatim>\<open>OverflowError\<close> and is not zero, it returns \<^verbatim>\<open>round(weight / height ** 2, 2)\<close>
  (a height in metres, used as it is). Every operation is the float operation of Python,
  whatever the float arithmetic is.
\<close>

theorem calculate_bmi_formula:
  "(float_lt (Finite 0) weight \<and> float_lt (Finite 10) height
      \<and> f_pow ops (f_truediv ops height (Finite 100)) 2 = Some squared
      \<and> \<not> float_is_zero squared \<longrightarrow>
      calculate_bmi ops weight height =
        Inr [(''bmi'', PyFloat (f_round ops (f_truediv ops weight squared) 2))])
   \<and> (float_lt (Finite 0) weight \<and> float_lt (Finite 0) height \<and> float_le height (Finite 10)
      \<and> f_pow ops height 2 = Some squared \<and> \<not> float_is_zero squared \<longrightarrow>
      calculate_bmi ops weight height =
        Inr [(''bmi'', PyFloat (f_round ops (f_truediv ops weight squared) 2))])"
proof (intro conjI impI)
  assume h: "float_lt (Finite 0) weight \<and> float_lt (Finite 10) height
      \<and> f_pow ops (f_truediv ops height (Finite 100)) 2 = Some squared
      \<and> \<not> float_is_zero squared"
  then have "\<not> float_le weight (Finite 0)" and "\<not> float_le height (Finite 0)"
    by (simp_all add: float_lt_not_le float_lt_10_not_le_0)
  with h show "calculate_bmi ops weight height =
      Inr [(''bmi'', PyFloat (f_round ops (f_truediv ops weight squared) 2))]"
    by (simp add: calculate_bmi_def py_truediv_def py_pow_def then_do_Inr float_is_zero_def)
next
  assume h: "float_lt (Finite 0) weight \<and> float_lt (Finite 0) height
      \<and> float_le height (Finite 10)
      \<and> f_pow ops height 2 = Some squared \<and> \<not> float_is_zero squared"
  then have "\<not> float_le weight (Finite 0)" and "\<not> float_le height (Finite 0)"
    and "\<not> float_lt (Finite 10) height"
    by (simp_all add: float_lt_not_le float_le_not_lt)
  with h show "calculate_bmi ops weight height =
      Inr [(''bmi'', PyFloat (f_round ops (f_truediv ops weight squared) 2))]"
    by (simp add: calculate_bmi_def py_truediv_def py_pow_def then_do_Inr)
qed

theorem calculate_bmi_formula_witness:
  "calculate_bmi binary64 (Finite 56) (Finite 160) = Inr [(''bmi'', PyFloat (fl (2187 / 100)))]
   \<and> calculate_bmi binary64 (Finite 70) (Finite (7 / 4)) =
       Inr [(''bmi'', PyFloat (fl (2286 / 100)))]"
proof -
  have cm: "f_pow binary64 (f_truediv binary64 (Finite 160) (Finite 100)) 2
      = Some (Finite (5764607523034236 / 2 ^ 51))"
    using fl_sq_8_5 by (simp add: binary64_def fl_8_5 numeral_2_eq_2)
  have cm_round: "f_round binary64
      (f_truediv binary64 (Finite 56) (Finite (5764607523034236 / 2 ^ 51))) 2
      = fl (2187 / 100)"
    using fl_56_sq by (simp add: binary64_def round_half_even_def)
  have m: "f_pow binary64 (Finite (7 / 4)) 2 = Some (Finite (49 / 16))"
    using fl_49_16 by (simp add: binary64_def numeral_2_eq_2)
  have m_round: "f_round binary64 (f_truediv binary64 (Finite 70) (Finite (49 / 16))) 2
      = fl (2286 / 100)"
    using fl_160_7 by (simp add: binary64_def round_half_even_def)
  show ?thesis
    using calculate_bmi_formula [where ops = binary64 and weight = "Finite 56"
        and height = "Finite 160" and squared = "Finite (5764607523034236 / 2 ^ 51)"]
      calculate_bmi_formula [where ops = binary64 and weight = "Finite 70"
        and height = "Finite (7 / 4)" and squared = "Finite (49 / 16)"]
      cm cm_round m m_round
    by (simp add: float_is_zero_def)
qed

text \<open>
  Without the condition on the square the claim fails on binary64. The height
  \<open>1 / 2 ^ 600\<close> is a float in \<open>(0, 10]\<close> whose square underflows to zero, and the
  handler raises \<^verbatim>\<open>ZeroDivisionError\<close>; the height \<open>2 ^ 600\<close> is a float above 10, the
  square of its hundredth is out of range, and the handler raises \<^verbatim>\<open>OverflowError\<close>.
  In neither case is a value returned.
\<close>

theorem calculate_bmi_formula_counterexample:
  "float_lt (Finite 0) (Finite 70) \<and> float_lt (Finite 0) (Finite (1 / 2 ^ 600))
     \<and> float_le (Finite (1 / 2 ^ 600)) (Finite 10)
     \<and> calculate_bmi binary64 (Finite 70) (Finite (1 / 2 ^ 600)) = Inl ZeroDivisionError
   \<and> float_lt (Finite 10) (Finite (2 ^ 600))
     \<and> calculate_bmi binary64 (Finite 70) (Finite (2 ^ 600)) = Inl OverflowError"
proof -
  have tiny: "f_pow binary64 (Finite (1 / 2 ^ 600)) 2 = Some (Finite 0)"
    using fl_tiny by (simp add: binary64_def numeral_2_eq_2)
  have huge: "f_truediv binary64 (Finite (2 ^ 600)) (Finite 100)
      = Finite (5764607523034235 * 2 ^ 541)"
    using fl_huge_100 by (simp add: binary64_def)
  have huge_sq: "f_pow binary64 (Finite (5764607523034235 * 2 ^ 541)) 2 = None"
    using fl_huge_sq by (simp add: binary64_def numeral_2_eq_2)
  show ?thesis
    using tiny huge huge_sq
    by (simp add: calculate_bmi_def py_truediv_def py_pow_def then_do_def float_is_zero_def)
qed

text \<open>
  Claim C2. For every weight and duration above zero and each of the three known activity
  levels, the \<^verbatim>\<open>/calories\<close> handler returns \<^verbatim>\<open>round(met * weight * duration / 60, 2)\<close>,
  with \<open>met\<close> equal to 3.5 for \<^verbatim>\<open>light\<close>, 5.0 for \<^verbatim>\<open>moderate\<close> and 8.0 for
  \<^verbatim>\<open>vigorous\<close>. Every operation is the float operation of Python, whatever the float
  arithmetic is; none of them raises. On binary64 the handler gives 16.27 for 31 kg and
  9 minutes of light activity, and an infinity when the product is out of range.
\<close>

theorem calculate_calories_formula:
  "float_lt (Finite 0) weight \<Longrightarrow> float_lt (Finite 0) duration \<Longrightarrow>
   calculate_calories ops weight duration ''light'' =
     Inr [(''calories_burned'', PyFloat (f_round ops (f_truediv ops
            (f_mul ops (f_mul ops (Finite (35 / 10)) weight) duration) (Finite 60)) 2))]
   \<and> calculate_calories ops weight duration ''moderate'' =
     Inr [(''calories_burned'', PyFloat (f_round ops (f_truediv ops
            (f_mul ops (f_mul ops (Finite 5) weight) duration) (Finite 60)) 2))]
   \<and> calculate_calories ops weight duration ''vigorous'' =
     Inr [(''calories_burned'', PyFloat (f_round ops (f_truediv ops
            (f_mul ops (f_mul ops (Finite 8) weight) duration) (Finite 60)) 2))]"
  by (simp add: calculate_calories_def met_values_def float_lt_not_le float_is_zero_def
      py_truediv_def then_do_Inr)

theorem calculate_calories_formula_witness:
  "calculate_calories binary64 (Finite 31) (Finite 9) ''light'' =
     Inr [(''calories_burned'', PyFloat (fl (1627 / 100)))]
   \<and> calculate_calories binary64 (Finite (2 ^ 1000)) (Finite (2 ^ 1000)) ''vigorous'' =
     Inr [(''calories_burned'', PyFloat PosInf)]"
proof -
  have light: "f_round binary64 (f_truediv binary64
      (f_mul binary64 (f_mul binary64 (Finite (35 / 10)) (Finite 31)) (Finite 9))
      (Finite 60)) 2 = fl (1627 / 100)"
    using fl_217_2 fl_1953_2 fl_651_40 by (simp add: binary64_def round_half_even_def)
  have vigorous: "f_round binary64 (f_truediv binary64
      (f_mul binary64 (f_mul binary64 (Finite 8) (Finite (2 ^ 1000))) (Finite (2 ^ 1000)))
      (Finite 60)) 2 = PosInf"
    using fl_2_1003 fl_2_2003 by (simp add: binary64_def)
  show ?thesis
    using calculate_calories_formula [where ops = binary64 and weight = "Finite 31"
        and duration = "Finite 9"]
      calculate_calories_formula [where ops = binary64 and weight = "Finite (2 ^ 1000)"
        and duration = "Finite (2 ^ 1000)"]
      light vigorous
    by simp
qed

text \<open>
  Claim C3, as the code has it. For every integer \<open>water_ml\<close> the \<^verbatim>\<open>/hydration\<close>
  handler answers by three fixed thresholds: below 2000 the status is
  \<^verbatim>\<open>Drink more water!\<close>, from 2000 to 3000 inclusive it is \<^verbatim>\<open>You're well hydrated!\<close>,
  above 3000 it is \<^verbatim>\<open>Too much water!\<close>, each with its fixed advice string.
\<close>

theorem check_hydration_thresholds:
  "(water_ml < 2000 \<longrightarrow>
      check_hydration water_ml =
        Inr [(''status'', PyStr ''Drink more water!''),
             (''advice'', PyStr ''Aim for at least 2 liters per day.'')])
   \<and> (2000 \<le> water_ml \<and> water_ml \<le> 3000 \<longrightarrow>
      check_hydration water_ml =
        Inr [(''status'', PyStr ''You're well hydrated!''),
             (''advice'', PyStr ''Maintain this level of hydration.'')])
   \<and> (3000 < water_ml \<longrightarrow>
      check_hydration water_ml =
        Inr [(''status'', PyStr ''Too much water!''),
             (''advice'', PyStr ''Avoid overhydration.'')])"
  by (simp add: check_hydration_def)

theorem check_hydration_thresholds_witness:
  "payload_field (check_hydration 1999) ''status'' = Some (PyStr ''Drink more water!'')
   \<and> payload_field (check_hydration 2000) ''status'' = Some (PyStr ''You're well hydrated!'')
   \<and> payload_field (check_hydration 3000) ''status'' = Some (PyStr ''You're well hydrated!'')
   \<and> payload_field (check_hydration 3001) ''status'' = Some (PyStr ''Too much water!'')"
  using check_hydration_thresholds [of 1999] check_hydration_thresholds [of 2000]
    check_hydration_thresholds [of 3000] check_hydration_thresholds [of 3001]
  by (simp add: payload_field_def)

text \<open>
  The status of the middle band is not the bare string \<^verbatim>\<open>well hydrated\<close>: at 2000 ml,
  inside the band, the handler's status differs from it.
\<close>

theorem check_hydration_status_counterexample:
  "(2000::int) \<le> 2000 \<and> (2000::int) \<le> 3000
   \<and> payload_field (check_hydration 2000) ''status'' \<noteq> Some (PyStr ''well hydrated'')"
  by (simp add: check_hydration_def payload_field_def)

text \<open>
  Claim C4. For every number of hours the \<^verbatim>\<open>/sleep-score\<close> handler answers by three
  fixed thresholds: below 6 the score is 50, from 6 to 8 inclusive it is 90, above 8 it is
  70, each with its fixed status string; so 5, 7 and 9 hours score 50, 90 and 70.
\<close>

theorem sleep_score_thresholds:
  "(hours < 6 \<longrightarrow>
      sleep_score hours = Inr [(''score'', PyInt 50), (''status'', PyStr ''Too little sleep'')])
   \<and> (6 \<le> hours \<and> hours \<le> 8 \<longrightarrow>
      sleep_score hours = Inr [(''score'', PyInt 90), (''status'', PyStr ''Healthy sleep'')])
   \<and> (8 < hours \<longrightarrow>
      sleep_score hours = Inr [(''score'', PyInt 70), (''status'', PyStr ''Too much sleep'')])"
  by (simp add: sleep_score_def)

theorem sleep_score_thresholds_witness:
  "payload_field (sleep_score 5) ''score'' = Some (PyInt 50)
   \<and> payload_field (sleep_score 7) ''score'' = Some (PyInt 90)
   \<and> payload_field (sleep_score 9) ''score'' = Some (PyInt 70)"
  using sleep_score_thresholds [of 5] sleep_score_thresholds [of 7]
    sleep_score_thresholds [of 9]
  by (simp add: payload_field_def)

text \<open>
  Claim C5. The \<^verbatim>\<open>/bmi\<close> handler raises an HTTP exception of status 400 exactly when
  the weight or the height is at most zero, and for those inputs it returns no payload.
  This holds whatever the float arithmetic is: the exceptions of the arithmetic are not
  HTTP exceptions.
\<close>

theorem calculate_bmi_400_iff:
  "((\<exists>detail. calculate_bmi ops weight height = Inl (HTTPException 400 detail))
      \<longleftrightarrow> (float_le weight (Finite 0) \<or> float_le height (Finite 0)))
   \<and> (float_le weight (Finite 0) \<or> float_le height (Finite 0) \<longrightarrow>
        (\<forall>p. calculate_bmi ops weight height \<noteq> Inr p))"
  by (auto simp add: calculate_bmi_def py_truediv_def py_pow_def then_do_def
      split: option.splits)

theorem calculate_bmi_400_iff_witness:
  "(\<exists>detail. calculate_bmi binary64 (Finite 0) (Finite 170) = Inl (HTTPException 400 detail))
   \<and> (\<exists>detail. calculate_bmi binary64 (Finite 70) (Finite (- 1))
                = Inl (HTTPException 400 detail))
   \<and> (\<forall>p. calculate_bmi binary64 (Finite 0) (Finite 170) \<noteq> Inr p)
   \<and> \<not> (\<exists>detail. calculate_bmi binary64 (Finite 70) (Finite 170)
                  = Inl (HTTPException 400 detail))
   \<and> \<not> (\<exists>detail. calculate_bmi binary64 (Finite 70) (Finite (1 / 2 ^ 600))
                  = Inl (HTTPException 400 detail))
   \<and> \<not> (\<exists>detail. calculate_bmi binary64 (Finite 70) NaN = Inl (HTTPException 400 detail))"
  using calculate_bmi_400_iff [of binary64 "Finite 0" "Finite 170"]
    calculate_bmi_400_iff [of binary64 "Finite 70" "Finite (- 1)"]
    calculate_bmi_400_iff [of binary64 "Finite 70" "Finite 170"]
    calculate_bmi_400_iff [of binary64 "Finite 70" "Finite (1 / 2 ^ 600)"]
    calculate_bmi_400_iff [of binary64 "Finite 70" NaN]
  by simp

text \<open>
  Claim C6. The \<^verbatim>\<open>/calories\<close> handler raises an HTTP exception of status 400 exactly
  when the weight or the duration is at most zero or the activity level is none of
  \<^verbatim>\<open>light\<close>, \<^verbatim>\<open>moderate\<close>, \<^verbatim>\<open>vigorous\<close>. A weight or duration at most zero is
  rejected first: the answer is then the weight-and-duration error whatever the activity
  level, and the activity-level error is only raised once the weight and the duration have
  passed that check.
\<close>

theorem calculate_calories_400_iff:
  "((\<exists>detail. calculate_calories ops weight duration activity_level
                = Inl (HTTPException 400 detail))
      \<longleftrightarrow> (float_le weight (Finite 0) \<or> float_le duration (Finite 0)
            \<or> activity_level \<notin> {''light'', ''moderate'', ''vigorous''}))
   \<and> (float_le weight (Finite 0) \<or> float_le duration (Finite 0) \<longrightarrow>
        calculate_calories ops weight duration activity_level =
          Inl (HTTPException 400 ''Weight and duration must be greater than zero.''))
   \<and> (\<not> float_le weight (Finite 0) \<and> \<not> float_le duration (Finite 0)
        \<and> activity_level \<notin> {''light'', ''moderate'', ''vigorous''} \<longrightarrow>
        calculate_calories ops weight duration activity_level =
          Inl (HTTPException 400
                 ''Invalid activity level. Choose from light, moderate, or vigorous.''))"
  by (auto simp add: calculate_calories_def met_values_def float_is_zero_def py_truediv_def
      then_do_def)

theorem calculate_calories_400_iff_witness:
  "calculate_calories binary64 (Finite 0) (Finite 30) ''running'' =
     Inl (HTTPException 400 ''Weight and duration must be greater than zero.'')
   \<and> calculate_calories binary64 (Finite 60) (Finite 30) ''running'' =
     Inl (HTTPException 400
            ''Invalid activity level. Choose from light, moderate, or vigorous.'')
   \<and> \<not> (\<exists>detail. calculate_calories binary64 (Finite 60) (Finite 30) ''light''
                  = Inl (HTTPException 400 detail))"
  using calculate_calories_400_iff [of binary64 "Finite 0" "Finite 30" "''running''"]
    calculate_calories_400_iff [of binary64 "Finite 60" "Finite 30" "''running''"]
    calculate_calories_400_iff [of binary64 "Finite 60" "Finite 30" "''light''"]
  by simp

text \<open>
  Claim C9. Neither the \<^verbatim>\<open>/hydration\<close> nor the \<^verbatim>\<open>/sleep-score\<close> handler validates
  its input: for every input, zero and negative values included, each returns one of its
  three fixed payloads and raises nothing. Every amount below 2000 gives the
  \<^verbatim>\<open>Drink more water!\<close> payload and every duration below 6 gives score 50.
\<close>

theorem hydration_sleep_no_validation:
  "check_hydration water_ml \<in>
     {Inr [(''status'', PyStr ''Drink more water!''),
           (''advice'', PyStr ''Aim for at least 2 liters per day.'')],
      Inr [(''status'', PyStr ''You're well hydrated!''),
           (''advice'', PyStr ''Maintain this level of hydration.'')],
      Inr [(''status'', PyStr ''Too much water!''),
           (''advice'', PyStr ''Avoid overhydration.'')]}
   \<and> (\<forall>e. check_hydration water_ml \<noteq> Inl e)
   \<and> (water_ml < 2000 \<longrightarrow>
        check_hydration water_ml =
          Inr [(''status'', PyStr ''Drink more water!''),
               (''advice'', PyStr ''Aim for at least 2 liters per day.'')])
   \<and> sleep_score hours \<in>
     {Inr [(''score'', PyInt 50), (''status'', PyStr ''Too little sleep'')],
      Inr [(''score'', PyInt 90), (''status'', PyStr ''Healthy sleep'')],
      Inr [(''score'', PyInt 70), (''status'', PyStr ''Too much sleep'')]}
   \<and> (\<forall>e. sleep_score hours \<noteq> Inl e)
   \<and> (hours < 6 \<longrightarrow> payload_field (sleep_score hours) ''score'' = Some (PyInt 50))"
  by (simp add: check_hydration_def sleep_score_def payload_field_def)

theorem hydration_sleep_no_validation_witness:
  "payload_field (check_hydration (- 250)) ''status'' = Some (PyStr ''Drink more water!'')
   \<and> payload_field (check_hydration 0) ''status'' = Some (PyStr ''Drink more water!'')
   \<and> payload_field (sleep_score (- 3)) ''score'' = Some (PyInt 50)
   \<and> payload_field (sleep_score 0) ''score'' = Some (PyInt 50)"
  using hydration_sleep_no_validation [of "- 250" "- 3"]
    hydration_sleep_no_validation [of 0 0]
  by (simp add: payload_field_def)

section \<open>Properties of start-up\<close>

text \<open>
  Claim C8. If either required credential, \<^verbatim>\<open>OPENWEATHER_KEY\<close> or
  \<^verbatim>\<open>OPENAI_API_KEY\<close>, is absent from the environment, module initialisation raises a
  \<^verbatim>\<open>RuntimeError\<close>, so the application and its routes are never defined. The message
  names the missing variables, a variable set to the empty string counting as missing:
  both, the first alone, or the second alone.
\<close>

theorem module_init_missing:
  "(getenv env ''OPENWEATHER_KEY'' = None \<or> getenv env ''OPENAI_API_KEY'' = None \<longrightarrow>
      (\<exists>msg. module_init env = Inl (RuntimeError msg)))
   \<and> (not_str (getenv env ''OPENWEATHER_KEY'') \<and> not_str (getenv env ''OPENAI_API_KEY'') \<longrightarrow>
      module_init env = Inl (RuntimeError
        ''Missing required environment variables: OPENWEATHER_KEY, OPENAI_API_KEY''))
   \<and> (not_str (getenv env ''OPENWEATHER_KEY'') \<and> \<not> not_str (getenv env ''OPENAI_API_KEY'') \<longrightarrow>
      module_init env = Inl (RuntimeError
        ''Missing required environment variables: OPENWEATHER_KEY''))
   \<and> (\<not> not_str (getenv env ''OPENWEATHER_KEY'') \<and> not_str (getenv env ''OPENAI_API_KEY'') \<longrightarrow>
      module_init env = Inl (RuntimeError
        ''Missing required environment variables: OPENAI_API_KEY''))"
  by (auto simp add: module_init_def missing_vars_def required_env_vars_def not_str_def
      split: option.splits)

theorem module_init_missing_witness:
  "module_init Map.empty = Inl (RuntimeError
     ''Missing required environment variables: OPENWEATHER_KEY, OPENAI_API_KEY'')
   \<and> module_init [''OPENAI_API_KEY'' \<mapsto> ''sk''] = Inl (RuntimeError
     ''Missing required environment variables: OPENWEATHER_KEY'')
   \<and> module_init [''OPENWEATHER_KEY'' \<mapsto> ''k''] = Inl (RuntimeError
     ''Missing required environment variables: OPENAI_API_KEY'')"
  using module_init_missing [of Map.empty]
    module_init_missing [of "[''OPENAI_API_KEY'' \<mapsto> ''sk'']"]
    module_init_missing [of "[''OPENWEATHER_KEY'' \<mapsto> ''k'']"]
  by (simp add: getenv_def not_str_def)

section \<open>Properties of the weather and text-completion proxies\<close>

text \<open>
  Claim C7. The \<^verbatim>\<open>/weather\<close> handler makes its outbound call once the API key is
  configured. A timeout of that call gives status 504; any other failure of the
  \<^verbatim>\<open>requests\<close> library gives status 502 with the text of the upstream error in the
  detail; a decoded body without the key \<^verbatim>\<open>main\<close> or without the key \<^verbatim>\<open>weather\<close>
  gives status 500; and a body of the expected shape gives the payload of the city, the
  temperature \<^verbatim>\<open>data["main"]["temp"]\<close> and the description
  \<^verbatim>\<open>data["weather"][0]["description"]\<close>.
\<close>

theorem get_weather_outcomes:
  assumes "getenv env ''OPENWEATHER_KEY'' = Some API_KEY" and "API_KEY \<noteq> []"
  shows "(upstream_call requests_get (weather_url city API_KEY) = Inl (Timeout a) \<longrightarrow>
            get_weather str_exc env requests_get city =
              Inl (HTTPException 504 ''OpenWeather API request timed out.''))
       \<and> (upstream_call requests_get (weather_url city API_KEY) = Inl (RequestException a) \<longrightarrow>
            get_weather str_exc env requests_get city =
              Inl (HTTPException 502 (''Bad Gateway: '' @ str_exc (RequestException a))))
       \<and> (upstream_call requests_get (weather_url city API_KEY) = Inr (PyDict kvs)
            \<and> (''main'' \<notin> fst ` set kvs \<or> ''weather'' \<notin> fst ` set kvs) \<longrightarrow>
            (\<exists>detail. get_weather str_exc env requests_get city =
                        Inl (HTTPException 500 detail)))
       \<and> (upstream_call requests_get (weather_url city API_KEY) = Inr (PyDict kvs)
            \<and> map_of kvs ''main'' = Some (PyDict main) \<and> map_of main ''temp'' = Some temp
            \<and> map_of kvs ''weather'' = Some (PyList (PyDict entry # rest))
            \<and> map_of entry ''description'' = Some description \<longrightarrow>
            get_weather str_exc env requests_get city =
              Inr [(''city'', PyStr city), (''temperature'', temp),
                   (''description'', description)])"
proof (intro conjI impI)
  assume "upstream_call requests_get (weather_url city API_KEY) = Inl (Timeout a)"
  with assms show "get_weather str_exc env requests_get city =
      Inl (HTTPException 504 ''OpenWeather API request timed out.'')"
    by (simp add: get_weather_def get_weather_try_def then_do_Inl)
next
  assume "upstream_call requests_get (weather_url city API_KEY) = Inl (RequestException a)"
  with assms show "get_weather str_exc env requests_get city =
      Inl (HTTPException 502 (''Bad Gateway: '' @ str_exc (RequestException a)))"
    by (simp add: get_weather_def get_weather_try_def then_do_Inl)
next
  assume "upstream_call requests_get (weather_url city API_KEY) = Inr (PyDict kvs)
    \<and> (''main'' \<notin> fst ` set kvs \<or> ''weather'' \<notin> fst ` set kvs)"
  with assms show "\<exists>detail. get_weather str_exc env requests_get city =
      Inl (HTTPException 500 detail)"
    by (auto simp add: get_weather_def get_weather_try_def then_do_Inr then_do_Inl
        weather_unexpected_def)
next
  assume h: "upstream_call requests_get (weather_url city API_KEY) = Inr (PyDict kvs)
    \<and> map_of kvs ''main'' = Some (PyDict main) \<and> map_of main ''temp'' = Some temp
    \<and> map_of kvs ''weather'' = Some (PyList (PyDict entry # rest))
    \<and> map_of entry ''description'' = Some description"
  then have "''main'' \<in> fst ` set kvs" and "''weather'' \<in> fst ` set kvs"
    by (blast intro: map_of_in_keys)+
  with h assms show "get_weather str_exc env requests_get city =
      Inr [(''city'', PyStr city), (''temperature'', temp), (''description'', description)]"
    by (simp add: get_weather_def get_weather_try_def then_do_Inr)
qed

theorem get_weather_outcomes_witness:
  "get_weather (\<lambda>e. case e of RequestException a \<Rightarrow> a | _ \<Rightarrow> [])
     [''OPENWEATHER_KEY'' \<mapsto> ''k''] (\<lambda>url t. Inl (Timeout ''read timed out'')) ''Oslo''
     = Inl (HTTPException 504 ''OpenWeather API request timed out.'')
   \<and> get_weather (\<lambda>e. case e of RequestException a \<Rightarrow> a | _ \<Rightarrow> [])
     [''OPENWEATHER_KEY'' \<mapsto> ''k'']
     (\<lambda>url t. Inr \<lparr>raise_for_status = Some (RequestException ''404 Client Error''),
                    json = Inr PyNone\<rparr>) ''Oslo''
     = Inl (HTTPException 502 ''Bad Gateway: 404 Client Error'')
   \<and> (\<exists>detail. get_weather (\<lambda>e. case e of RequestException a \<Rightarrow> a | _ \<Rightarrow> [])
     [''OPENWEATHER_KEY'' \<mapsto> ''k'']
     (\<lambda>url t. Inr \<lparr>raise_for_status = None,
                    json = Inr (PyDict [(''main'', PyDict [(''temp'', PyInt 3)])])\<rparr>) ''Oslo''
     = Inl (HTTPException 500 detail))
   \<and> get_weather (\<lambda>e. case e of RequestException a \<Rightarrow> a | _ \<Rightarrow> [])
     [''OPENWEATHER_KEY'' \<mapsto> ''k'']
     (\<lambda>url t. Inr \<lparr>raise_for_status = None,
                    json = Inr (PyDict [(''weather'',
                                          PyList [PyDict [(''description'', PyStr ''clear sky'')]]),
                                        (''main'', PyDict [(''temp'', PyInt 3)])])\<rparr>) ''Oslo''
     = Inr [(''city'', PyStr ''Oslo''), (''temperature'', PyInt 3),
            (''description'', PyStr ''clear sky'')]"
proof -
  let ?env = "[''OPENWEATHER_KEY'' \<mapsto> ''k'']"
  let ?str = "\<lambda>e. case e of RequestException a \<Rightarrow> a | _ \<Rightarrow> []"
  have key: "getenv ?env ''OPENWEATHER_KEY'' = Some ''k''" and ne: "''k'' \<noteq> []"
    by (simp_all add: getenv_def)
  show ?thesis
    using get_weather_outcomes [OF key ne,
        where requests_get = "\<lambda>url t. Inl (Timeout ''read timed out'')"
          and a = "''read timed out''" and city = "''Oslo''" and str_exc = ?str]
      get_weather_outcomes [OF key ne,
        where requests_get = "\<lambda>url t. Inr \<lparr>raise_for_status =
            Some (RequestException ''404 Client Error''), json = Inr PyNone\<rparr>"
          and a = "''404 Client Error''" and city = "''Oslo''" and str_exc = ?str]
      get_weather_outcomes [OF key ne,
        where requests_get = "\<lambda>url t. Inr \<lparr>raise_for_status = None,
            json = Inr (PyDict [(''main'', PyDict [(''temp'', PyInt 3)])])\<rparr>"
          and kvs = "[(''main'', PyDict [(''temp'', PyInt 3)])]"
          and city = "''Oslo''" and str_exc = ?str]
      get_weather_outcomes [OF key ne,
        where requests_get = "\<lambda>url t. Inr \<lparr>raise_for_status = None,
            json = Inr (PyDict [(''weather'',
                                  PyList [PyDict [(''description'', PyStr ''clear sky'')]]),
                                (''main'', PyDict [(''temp'', PyInt 3)])])\<rparr>"
          and kvs = "[(''weather'', PyList [PyDict [(''description'', PyStr ''clear sky'')]]),
                      (''main'', PyDict [(''temp'', PyInt 3)])]"
          and main = "[(''temp'', PyInt 3)]" and temp = "PyInt 3"
          and entry = "[(''description'', PyStr ''clear sky'')]" and rest = "[]"
          and description = "PyStr ''clear sky''"
          and city = "''Oslo''" and str_exc = ?str]
    by (simp add: upstream_call_def then_do_def)
qed

text \<open>
  Claim C10. In both proxies the HTTP exception of status 500 for an unexpected response
  shape is raised inside the \<^verbatim>\<open>try\<close> block, so the handler's last \<^verbatim>\<open>except\<close> clause
  catches it and raises a new one: the status stays 500 and the detail is
  \<^verbatim>\<open>Internal Server Error: \<close> followed by \<^verbatim>\<open>str\<close> of the caught exception. Whatever the
  inputs, neither handler ever raises an HTTP exception whose detail is the bare
  shape-specific string.
\<close>

theorem unexpected_shape_rewrapped:
  "(getenv env ''OPENWEATHER_KEY'' = Some API_KEY \<and> API_KEY \<noteq> []
      \<and> upstream_call requests_get (weather_url city API_KEY) = Inr data
      \<and> (py_in ''main'' data = Inr False
           \<or> py_in ''main'' data = Inr True \<and> py_in ''weather'' data = Inr False) \<longrightarrow>
      get_weather_try requests_get (weather_url city API_KEY) city =
        Inl (HTTPException 500 ''Unexpected response format from OpenWeather API.'')
      \<and> get_weather str_exc env requests_get city =
        Inl (HTTPException 500 (''Internal Server Error: ''
          @ str_exc (HTTPException 500 ''Unexpected response format from OpenWeather API.''))))
   \<and> (\<forall>status. get_weather str_exc env requests_get city \<noteq>
        Inl (HTTPException status ''Unexpected response format from OpenWeather API.''))
   \<and> (chat_create ''gpt-3.5-turbo''
          (PyList [PyDict [(''role'', PyStr ''user''), (''content'', PyStr request)]])
          = Inr response
      \<and> py_get response ''choices'' = Inr choices
      \<and> (py_not choices
           \<or> py_getitem_0 choices = Inr choice \<and> py_get choice ''message'' = Inr message
               \<and> py_not message) \<longrightarrow>
      ask_openai_try chat_create request =
        Inl (HTTPException 500 ''Unexpected response format from OpenAI API.'')
      \<and> ask_openai str_exc chat_create request =
        Inl (HTTPException 500 (''Internal Server Error: ''
          @ str_exc (HTTPException 500 ''Unexpected response format from OpenAI API.''))))
   \<and> (\<forall>status. ask_openai str_exc chat_create request \<noteq>
        Inl (HTTPException status ''Unexpected response format from OpenAI API.''))"
proof (intro conjI impI allI)
  assume h: "getenv env ''OPENWEATHER_KEY'' = Some API_KEY \<and> API_KEY \<noteq> []
      \<and> upstream_call requests_get (weather_url city API_KEY) = Inr data
      \<and> (py_in ''main'' data = Inr False
           \<or> py_in ''main'' data = Inr True \<and> py_in ''weather'' data = Inr False)"
  then show t: "get_weather_try requests_get (weather_url city API_KEY) city =
      Inl (HTTPException 500 ''Unexpected response format from OpenWeather API.'')"
    by (auto simp add: get_weather_try_def then_do_Inr weather_unexpected_def)
  with h show "get_weather str_exc env requests_get city =
      Inl (HTTPException 500 (''Internal Server Error: ''
        @ str_exc (HTTPException 500 ''Unexpected response format from OpenWeather API.'')))"
    by (simp add: get_weather_def)
next
  fix status
  show "get_weather str_exc env requests_get city \<noteq>
      Inl (HTTPException status ''Unexpected response format from OpenWeather API.'')"
    by (simp add: get_weather_def get_weather_except_detail split: option.splits sum.splits)
next
  assume h: "chat_create ''gpt-3.5-turbo''
          (PyList [PyDict [(''role'', PyStr ''user''), (''content'', PyStr request)]])
          = Inr response
      \<and> py_get response ''choices'' = Inr choices
      \<and> (py_not choices
           \<or> py_getitem_0 choices = Inr choice \<and> py_get choice ''message'' = Inr message
               \<and> py_not message)"
  then show t: "ask_openai_try chat_create request =
      Inl (HTTPException 500 ''Unexpected response format from OpenAI API.'')"
    by (auto simp add: ask_openai_try_def then_do_Inr openai_unexpected_def)
  then show "ask_openai str_exc chat_create request =
      Inl (HTTPException 500 (''Internal Server Error: ''
        @ str_exc (HTTPException 500 ''Unexpected response format from OpenAI API.'')))"
    by (simp add: ask_openai_def)
next
  fix status
  show "ask_openai str_exc chat_create request \<noteq>
      Inl (HTTPException status ''Unexpected response format from OpenAI API.'')"
    by (simp add: ask_openai_def ask_openai_except_detail split: sum.splits)
qed

theorem unexpected_shape_rewrapped_witness:
  "get_weather (\<lambda>e. ''e'') [''OPENWEATHER_KEY'' \<mapsto> ''k'']
     (\<lambda>url t. Inr \<lparr>raise_for_status = None, json = Inr (PyDict [])\<rparr>) ''Oslo''
     = Inl (HTTPException 500 ''Internal Server Error: e'')
   \<and> ask_openai (\<lambda>e. ''e'') (\<lambda>m msgs. Inr (PyDict [(''choices'', PyList [])])) ''hi''
     = Inl (HTTPException 500 ''Internal Server Error: e'')
   \<and> ask_openai (\<lambda>e. ''e'')
       (\<lambda>m msgs. Inr (PyDict [(''choices'', PyList [PyDict [(''index'', PyInt 0)]])])) ''hi''
     = Inl (HTTPException 500 ''Internal Server Error: e'')"
  using unexpected_shape_rewrapped [where env = "[''OPENWEATHER_KEY'' \<mapsto> ''k'']"
      and API_KEY = "''k''" and city = "''Oslo''" and str_exc = "\<lambda>e. ''e''"
      and requests_get = "\<lambda>url t. Inr \<lparr>raise_for_status = None, json = Inr (PyDict [])\<rparr>"
      and data = "PyDict []"
      and chat_create = "\<lambda>m msgs. Inr (PyDict [(''choices'', PyList [])])"
      and request = "''hi''" and response = "PyDict [(''choices'', PyList [])]"
      and choices = "PyList []"]
    unexpected_shape_rewrapped [where str_exc = "\<lambda>e. ''e''"
      and chat_create = "\<lambda>m msgs. Inr (PyDict [(''choices'',
             PyList [PyDict [(''index'', PyInt 0)]])])"
      and request = "''hi''"
      and response = "PyDict [(''choices'', PyList [PyDict [(''index'', PyInt 0)]])]"
      and choices = "PyList [PyDict [(''index'', PyInt 0)]]"
      and choice = "PyDict [(''index'', PyInt 0)]" and message = PyNone]
  by (simp add: getenv_def upstream_call_def then_do_def)

end

